theory Spec2Isabelle
  imports Complex_Main
begin

section \<open>Python values, exceptions and tensor elements\<close>

text \<open>
  Every tensor operation of the sources is elementwise, so one element stands for the
  tensor. An element is a real number: arithmetic is exact, rounding is not modelled.
  Where a claim depends on them, the special values of floating-point arithmetic
  (infinities, NaN, the negative zero) are modelled as values of their own.
  Exceptions are values of \<open>py_error\<close>; a call that can raise returns \<open>py_error + 'a\<close>.
  \<open>ValueError\<close>, \<open>TypeError\<close> and \<open>IndexError\<close> are Python's built-in exceptions.
  \<open>MissingParameterError\<close> and \<open>ConfigurationError\<close> are the names of the
  specification's error taxonomy; no function under the sources raises either by name.
\<close>

datatype py_error =
  TypeError | ValueError | IndexError | MissingParameterError | ConfigurationError

definition bind_err :: "py_error + 'a \<Rightarrow> ('a \<Rightarrow> py_error + 'b) \<Rightarrow> py_error + 'b" where
  "bind_err m f = (case m of Inl e \<Rightarrow> Inl e | Inr v \<Rightarrow> f v)"

text \<open>
  A Python object that is either a tensor or a function; calling a tensor raises
  \<open>TypeError\<close> ('Tensor' object is not callable).
\<close>

datatype py_value = Tensor real | Function "real \<Rightarrow> real"

definition py_call :: "py_value \<Rightarrow> real \<Rightarrow> py_error + real" where
  "py_call f a = (case f of Function g \<Rightarrow> Inr (g a) | Tensor t \<Rightarrow> Inl TypeError)"

text \<open>
  The result of a floating-point division of two finite operands, where the divisor may
  be zero: IEEE 754 gives NaN for 0/0 and an infinity for a/0 with a nonzero a. HOL's own
  \<open>a / 0 = 0\<close> would hide both.
\<close>

datatype tensor_value = Finite real | PosInf | NegInf | NaN

definition tensor_div :: "real \<Rightarrow> real \<Rightarrow> tensor_value" where
  "tensor_div a b =
     (if b \<noteq> 0 then Finite (a / b)
      else if a = 0 then NaN
      else if 0 < a then PosInf else NegInf)"

text \<open>
  The other operations \<open>_f\<close>, \<open>_g\<close> and \<open>_h\<close> use, with the same special values:
  arithmetic on finite operands is exact, \<open>log 0\<close> is minus infinity, \<open>arctanh 1\<close>
  is plus infinity, an infinity minus itself and zero times an infinity are NaN, and a NaN
  operand gives NaN. The sign of a zero is not tracked here.
\<close>

fun tv_neg :: "tensor_value \<Rightarrow> tensor_value" where
  "tv_neg (Finite a) = Finite (- a)"
| "tv_neg PosInf = NegInf"
| "tv_neg NegInf = PosInf"
| "tv_neg NaN = NaN"

fun tv_add :: "tensor_value \<Rightarrow> tensor_value \<Rightarrow> tensor_value" where
  "tv_add (Finite a) (Finite b) = Finite (a + b)"
| "tv_add NaN v = NaN"
| "tv_add v NaN = NaN"
| "tv_add PosInf NegInf = NaN"
| "tv_add NegInf PosInf = NaN"
| "tv_add PosInf v = PosInf"
| "tv_add v PosInf = PosInf"
| "tv_add NegInf v = NegInf"
| "tv_add v NegInf = NegInf"

definition tv_sub :: "tensor_value \<Rightarrow> tensor_value \<Rightarrow> tensor_value" where
  "tv_sub v w = tv_add v (tv_neg w)"

fun tv_mul :: "tensor_value \<Rightarrow> tensor_value \<Rightarrow> tensor_value" where
  "tv_mul (Finite a) (Finite b) = Finite (a * b)"
| "tv_mul NaN v = NaN"
| "tv_mul v NaN = NaN"
| "tv_mul (Finite a) PosInf = (if a = 0 then NaN else if 0 < a then PosInf else NegInf)"
| "tv_mul (Finite a) NegInf = (if a = 0 then NaN else if 0 < a then NegInf else PosInf)"
| "tv_mul PosInf (Finite b) = (if b = 0 then NaN else if 0 < b then PosInf else NegInf)"
| "tv_mul NegInf (Finite b) = (if b = 0 then NaN else if 0 < b then NegInf else PosInf)"
| "tv_mul PosInf PosInf = PosInf"
| "tv_mul NegInf NegInf = PosInf"
| "tv_mul PosInf NegInf = NegInf"
| "tv_mul NegInf PosInf = NegInf"

definition tv_square :: "tensor_value \<Rightarrow> tensor_value" where
  "tv_square v = tv_mul v v"

fun tv_div :: "tensor_value \<Rightarrow> tensor_value \<Rightarrow> tensor_value" where
  "tv_div (Finite a) (Finite b) = tensor_div a b"
| "tv_div NaN v = NaN"
| "tv_div v NaN = NaN"
| "tv_div (Finite a) PosInf = Finite 0"
| "tv_div (Finite a) NegInf = Finite 0"
| "tv_div PosInf (Finite b) = (if 0 \<le> b then PosInf else NegInf)"
| "tv_div NegInf (Finite b) = (if 0 \<le> b then NegInf else PosInf)"
| "tv_div PosInf PosInf = NaN"
| "tv_div PosInf NegInf = NaN"
| "tv_div NegInf PosInf = NaN"
| "tv_div NegInf NegInf = NaN"

fun tv_sqrt :: "tensor_value \<Rightarrow> tensor_value" where
  "tv_sqrt (Finite a) = (if a < 0 then NaN else Finite (sqrt a))"
| "tv_sqrt PosInf = PosInf"
| "tv_sqrt NegInf = NaN"
| "tv_sqrt NaN = NaN"

fun tv_log :: "tensor_value \<Rightarrow> tensor_value" where
  "tv_log (Finite a) = (if a < 0 then NaN else if a = 0 then NegInf else Finite (ln a))"
| "tv_log PosInf = PosInf"
| "tv_log NegInf = NaN"
| "tv_log NaN = NaN"

fun tv_arctan :: "tensor_value \<Rightarrow> tensor_value" where
  "tv_arctan (Finite a) = Finite (arctan a)"
| "tv_arctan PosInf = Finite (pi / 2)"
| "tv_arctan NegInf = Finite (- (pi / 2))"
| "tv_arctan NaN = NaN"

fun tv_arctanh :: "tensor_value \<Rightarrow> tensor_value" where
  "tv_arctanh (Finite a) =
     (if a < - 1 \<or> 1 < a then NaN
      else if a = 1 then PosInf
      else if a = - 1 then NegInf
      else Finite (artanh a))"
| "tv_arctanh PosInf = NaN"
| "tv_arctanh NegInf = NaN"
| "tv_arctanh NaN = NaN"

text \<open>
  The constants the sources import from the package's constants module, which is not
  among the sources: they are parameters of the model.
\<close>

record constants =
  arcsec_to_rad :: real
  rad_to_arcsec :: real
  c_Mpc_s :: real
  G_over_c2 :: real

section \<open>Parameter packing\<close>

text \<open>
  Modelled from the spec: the classes Parametrized and Packed and the decorator unpack are
  imported by the sources but are not among them. A model registers named parameters in
  order, each with an optional bound value. An override bundle maps a model name to values
  given positionally (in registration order) or by name. Resolution takes the override if
  one is supplied, otherwise the bound value, and fails with MissingParameterError when
  there is neither.
\<close>

datatype override = Positional "real list" | Named "(string \<times> real) list"

type_synonym packed = "(string \<times> override) list"

type_synonym params = "(string \<times> real option) list"

definition add_param :: "params \<Rightarrow> string \<Rightarrow> real option \<Rightarrow> params" where
  "add_param ps n d = ps @ [(n, d)]"

fun supplied :: "override \<Rightarrow> nat \<Rightarrow> string \<Rightarrow> real option" where
  "supplied (Positional vs) i n = (if i < length vs then Some (vs ! i) else None)"
| "supplied (Named kvs) i n = map_of kvs n"

definition overridden :: "packed option \<Rightarrow> string \<Rightarrow> nat \<Rightarrow> string \<Rightarrow> real option" where
  "overridden P model i n =
     (case P of
        None \<Rightarrow> None
      | Some b \<Rightarrow> (case map_of b model of None \<Rightarrow> None | Some ov \<Rightarrow> supplied ov i n))"

definition resolve_param ::
  "packed option \<Rightarrow> string \<Rightarrow> nat \<Rightarrow> string \<times> real option \<Rightarrow> py_error + real" where
  "resolve_param P model i p =
     (case overridden P model i (fst p) of
        Some v \<Rightarrow> Inr v
      | None \<Rightarrow> (case snd p of Some v \<Rightarrow> Inr v | None \<Rightarrow> Inl MissingParameterError))"

fun unpack_from :: "packed option \<Rightarrow> string \<Rightarrow> nat \<Rightarrow> params \<Rightarrow> py_error + real list" where
  "unpack_from P model i [] = Inr []"
| "unpack_from P model i (p # ps) =
     bind_err (resolve_param P model i p) (\<lambda>v.
     bind_err (unpack_from P model (Suc i) ps) (\<lambda>vs. Inr (v # vs)))"

definition unpack :: "string \<Rightarrow> params \<Rightarrow> packed option \<Rightarrow> py_error + real list" where
  "unpack model ps P = unpack_from P model 0 ps"

text \<open>
  Modelled from the spec: the decorator unpack of the newer sources resolves the
  parameters the same way and hands them to the method as keyword arguments.
\<close>

definition unpack_kwargs ::
  "string \<Rightarrow> params \<Rightarrow> packed option \<Rightarrow> py_error + (string \<rightharpoonup> real)" where
  "unpack_kwargs model ps P =
     bind_err (unpack model ps P) (\<lambda>vs. Inr (map_of (zip (map fst ps) vs)))"

text \<open>Python's \<open>t[0]\<close> on a tuple.\<close>

definition index0 :: "'a list \<Rightarrow> py_error + 'a" where
  "index0 xs = (case xs of [] \<Rightarrow> Inl IndexError | v # vs \<Rightarrow> Inr v)"

section \<open>The lens base classes (base.py)\<close>

text \<open>
  The cosmology is an external object; its methods take the override bundle and may
  raise. The abstract methods of a lens are function fields of its record: a subclass
  fills them in.
\<close>

record cosmology =
  angular_diameter_distance :: "real \<Rightarrow> packed option \<Rightarrow> py_error + real"
  angular_diameter_distance_z1z2 :: "real \<Rightarrow> real \<Rightarrow> packed option \<Rightarrow> py_error + real"

record thick_lens =
  thick_name :: string
  thick_cosmology :: cosmology
  thick_deflection_angle ::
    "real \<Rightarrow> real \<Rightarrow> real \<Rightarrow> packed option \<Rightarrow> py_error + real \<times> real"

record thin_lens =
  thin_name :: string
  thin_cosmology :: cosmology
  thin_params :: params
  thin_deflection_angle ::
    "real \<Rightarrow> real \<Rightarrow> real \<Rightarrow> packed option \<Rightarrow> py_error + real \<times> real"
  thin_potential :: "real \<Rightarrow> real \<Rightarrow> real \<Rightarrow> packed option \<Rightarrow> py_error + real"

definition ThickLens_raytrace ::
  "thick_lens \<Rightarrow> real \<Rightarrow> real \<Rightarrow> real \<Rightarrow> packed option \<Rightarrow> py_error + real \<times> real" where
  "ThickLens_raytrace self x y z_s P =
     bind_err (thick_deflection_angle self x y z_s P) (\<lambda>(ax, ay).
       Inr (x - ax, y - ay))"

definition ThinLens_raytrace ::
  "thin_lens \<Rightarrow> real \<Rightarrow> real \<Rightarrow> real \<Rightarrow> packed option \<Rightarrow> py_error + real \<times> real" where
  "ThinLens_raytrace self x y z_s P =
     bind_err (thin_deflection_angle self x y z_s P) (\<lambda>(ax, ay).
       Inr (x - ax, y - ay))"

definition ThinLens_time_delay ::
  "constants \<Rightarrow> thin_lens \<Rightarrow> real \<Rightarrow> real \<Rightarrow> real \<Rightarrow> packed option \<Rightarrow> py_error + real" where
  "ThinLens_time_delay k self x y z_s P =
     bind_err (unpack (thin_name self) (thin_params self) P) (\<lambda>ps.
     bind_err (index0 ps) (\<lambda>z_l.
     bind_err (angular_diameter_distance (thin_cosmology self) z_l P) (\<lambda>d_l.
     bind_err (angular_diameter_distance (thin_cosmology self) z_s P) (\<lambda>d_s.
     bind_err (angular_diameter_distance_z1z2 (thin_cosmology self) z_l z_s P) (\<lambda>d_ls.
     bind_err (thin_deflection_angle self x y z_s P) (\<lambda>(ax, ay).
     bind_err (thin_potential self x y z_s P) (\<lambda>potential.
       let factor = (1 + z_l) / c_Mpc_s k * d_s * d_l / d_ls;
           fp = 0.5 * d_ls\<^sup>2 / d_s\<^sup>2 * (ax\<^sup>2 + ay\<^sup>2) - potential
       in Inr (factor * fp * (arcsec_to_rad k)\<^sup>2))))))))"

section \<open>The NFW profile (nfw.py)\<close>

text \<open>
  The cosmology object of nfw.py (an older interface than the one of base.py) and the
  helper \<open>get_Sigma_cr\<close> of the utilities module are external: parameters of the model.
\<close>

record nfw_cosmology =
  rho_cr :: "real \<Rightarrow> real"
  angular_diameter_dist :: "real \<Rightarrow> real"
  angular_diameter_dist_z1z2 :: "real \<Rightarrow> real \<Rightarrow> real"

definition DELTA :: real where
  "DELTA = 200"

definition get_r_s :: "real \<Rightarrow> nfw_cosmology \<Rightarrow> real \<Rightarrow> real \<Rightarrow> real" where
  "get_r_s z_l cosmo m c =
     (let rho = rho_cr cosmo z_l;
          r_delta = (3 * m / (4 * pi * DELTA * rho)) powr (1 / 3)
      in 1 / c * r_delta)"

definition get_rho_s :: "real \<Rightarrow> nfw_cosmology \<Rightarrow> real \<Rightarrow> real" where
  "get_rho_s z_l cosmo c =
     DELTA / 3 * rho_cr cosmo z_l * c ^ 3 / (ln (1 + c) - c / (1 + c))"

definition get_kappa_s ::
  "(real \<Rightarrow> real \<Rightarrow> nfw_cosmology \<Rightarrow> real) \<Rightarrow> real \<Rightarrow> real \<Rightarrow> nfw_cosmology \<Rightarrow> real \<Rightarrow> real \<Rightarrow> real" where
  "get_kappa_s get_Sigma_cr z_l z_s cosmo m c =
     (let Sigma_cr = get_Sigma_cr z_l z_s cosmo
      in get_rho_s z_l cosmo c * get_r_s z_l cosmo m c / Sigma_cr)"

text \<open>
  \<open>torch.where\<close> selects, per element, the value of the branch whose condition holds.
\<close>

definition NFW_f :: "real \<Rightarrow> real" where
  "NFW_f x =
     (if x > 1 then 1 - 2 / sqrt (x\<^sup>2 - 1) * arctan (sqrt ((x - 1) / (x + 1)))
      else if x < 1 then 1 - 2 / sqrt (1 - x\<^sup>2) * artanh (sqrt ((1 - x) / (1 + x)))
      else 0)"

definition NFW_g :: "real \<Rightarrow> real" where
  "NFW_g x =
     (let term_1 = 1 / 2 * (ln (x / 2))\<^sup>2;
          term_2 = (if x > 1 then 2 * (arctan (sqrt ((x - 1) / (x + 1))))\<^sup>2
                    else if x < 1 then - 2 * (artanh (sqrt ((1 - x) / (1 + x))))\<^sup>2
                    else 0)
      in term_1 + term_2)"

definition NFW_h :: "real \<Rightarrow> real" where
  "NFW_h x =
     (let term_1 = ln (x / 2);
          term_2 = (if x > 1 then 2 / sqrt (x\<^sup>2 - 1) * arctan (sqrt ((x - 1) / (x + 1)))
                    else if x < 1 then 2 / sqrt (1 - x\<^sup>2) * artanh (sqrt ((1 - x) / (1 + x)))
                    else 1)
      in term_1 + term_2)"

text \<open>
  \<open>NFW_f\<close>, \<open>NFW_g\<close> and \<open>NFW_h\<close> above give the value wherever every
  intermediate result is finite. The same three bodies, operation by operation, on tensor
  values: they also say where the result is an infinity or NaN.
\<close>

definition NFW_f_ieee :: "real \<Rightarrow> tensor_value" where
  "NFW_f_ieee x =
     (if x > 1 then
        tv_sub (Finite 1)
          (tv_mul (tv_div (Finite 2) (tv_sqrt (tv_sub (tv_square (Finite x)) (Finite 1))))
                  (tv_arctan (tv_sqrt (tv_div (tv_sub (Finite x) (Finite 1))
                                              (tv_add (Finite x) (Finite 1))))))
      else if x < 1 then
        tv_sub (Finite 1)
          (tv_mul (tv_div (Finite 2) (tv_sqrt (tv_sub (Finite 1) (tv_square (Finite x)))))
                  (tv_arctanh (tv_sqrt (tv_div (tv_sub (Finite 1) (Finite x))
                                               (tv_add (Finite 1) (Finite x))))))
      else Finite 0)"

definition NFW_g_ieee :: "real \<Rightarrow> tensor_value" where
  "NFW_g_ieee x =
     (let term_1 = tv_mul (Finite (1 / 2)) (tv_square (tv_log (tv_div (Finite x) (Finite 2))));
          term_2 =
            (if x > 1 then
               tv_mul (Finite 2)
                 (tv_square (tv_arctan (tv_sqrt (tv_div (tv_sub (Finite x) (Finite 1))
                                                        (tv_add (Finite x) (Finite 1))))))
             else if x < 1 then
               tv_mul (Finite (- 2))
                 (tv_square (tv_arctanh (tv_sqrt (tv_div (tv_sub (Finite 1) (Finite x))
                                                         (tv_add (Finite 1) (Finite x))))))
             else Finite 0)
      in tv_add term_1 term_2)"

definition NFW_h_ieee :: "real \<Rightarrow> tensor_value" where
  "NFW_h_ieee x =
     (let term_1 = tv_log (tv_div (Finite x) (Finite 2));
          term_2 =
            (if x > 1 then
               tv_mul (tv_div (Finite 2) (tv_sqrt (tv_sub (tv_square (Finite x)) (Finite 1))))
                      (tv_arctan (tv_sqrt (tv_div (tv_sub (Finite x) (Finite 1))
                                                  (tv_add (Finite x) (Finite 1)))))
             else if x < 1 then
               tv_mul (tv_div (Finite 2) (tv_sqrt (tv_sub (Finite 1) (tv_square (Finite x)))))
                      (tv_arctanh (tv_sqrt (tv_div (tv_sub (Finite 1) (Finite x))
                                                   (tv_add (Finite 1) (Finite x)))))
             else Finite 1)
      in tv_add term_1 term_2)"

text \<open>
  Modelled from the spec: the decorators \<open>transform_scalar_fn\<close> and
  \<open>transform_vector_fn\<close> of the utilities module are not among the sources; they
  evaluate the wrapped helper at the coordinates shifted to the profile's centre.
\<close>

definition transform_scalar_fn :: "real \<Rightarrow> real \<Rightarrow> (real \<Rightarrow> real \<Rightarrow> 'a) \<Rightarrow> real \<Rightarrow> real \<Rightarrow> 'a" where
  "transform_scalar_fn thx0 thy0 helper thx thy = helper (thx - thx0) (thy - thy0)"

definition transform_vector_fn :: "real \<Rightarrow> real \<Rightarrow> (real \<Rightarrow> real \<Rightarrow> 'a) \<Rightarrow> real \<Rightarrow> real \<Rightarrow> 'a" where
  "transform_vector_fn thx0 thy0 helper thx thy = helper (thx - thx0) (thy - thy0)"

definition NFW_alpha_hat ::
  "constants \<Rightarrow> real \<Rightarrow> real \<Rightarrow> real \<Rightarrow> real \<Rightarrow> nfw_cosmology \<Rightarrow> real \<Rightarrow> real \<Rightarrow> real \<Rightarrow> real
     \<Rightarrow> real \<times> real" where
  "NFW_alpha_hat k thx thy z_l z_s cosmo thx0 thy0 m c =
     transform_vector_fn thx0 thy0 (\<lambda>thx thy.
       let d_l = angular_diameter_dist cosmo z_l;
           th = sqrt (thx\<^sup>2 + thy\<^sup>2);
           r_s = get_r_s z_l cosmo m c;
           xi = d_l * th * arcsec_to_rad k;
           x = xi / r_s;
           alpha = 16 * pi * G_over_c2 k * get_rho_s z_l cosmo c * r_s ^ 3 * NFW_h x
                     * rad_to_arcsec k / xi
       in (alpha * thx / th, alpha * thy / th)) thx thy"

text \<open>
  The dimensionless radius \<open>x\<close> the three helpers compute from the shifted coordinates.
\<close>

definition NFW_x ::
  "constants \<Rightarrow> real \<Rightarrow> real \<Rightarrow> real \<Rightarrow> nfw_cosmology \<Rightarrow> real \<Rightarrow> real \<Rightarrow> real" where
  "NFW_x k thx thy z_l cosmo m c =
     (let d_l = angular_diameter_dist cosmo z_l;
          th = sqrt (thx\<^sup>2 + thy\<^sup>2);
          r_s = get_r_s z_l cosmo m c;
          xi = d_l * th * arcsec_to_rad k
      in xi / r_s)"

text \<open>
  \<open>kappa\<close>: the last operation is a division by \<open>x\<^sup>2 - 1\<close>, which is zero at
  \<open>x = 1\<close>; it is the one division modelled with its floating-point result.
\<close>

definition NFW_kappa ::
  "constants \<Rightarrow> (real \<Rightarrow> real \<Rightarrow> nfw_cosmology \<Rightarrow> real) \<Rightarrow> real \<Rightarrow> real \<Rightarrow> real \<Rightarrow> real
     \<Rightarrow> nfw_cosmology \<Rightarrow> real \<Rightarrow> real \<Rightarrow> real \<Rightarrow> real \<Rightarrow> tensor_value" where
  "NFW_kappa k get_Sigma_cr thx thy z_l z_s cosmo thx0 thy0 m c =
     transform_scalar_fn thx0 thy0 (\<lambda>thx thy.
       let d_l = angular_diameter_dist cosmo z_l;
           th = sqrt (thx\<^sup>2 + thy\<^sup>2);
           r_s = get_r_s z_l cosmo m c;
           xi = d_l * th * arcsec_to_rad k;
           x = xi / r_s;
           kappa_s = get_kappa_s get_Sigma_cr z_l z_s cosmo m c
       in tensor_div (2 * kappa_s * NFW_f x) (x\<^sup>2 - 1)) thx thy"

text \<open>
  \<open>Psi\<close>: \<open>kappa_s\<close> is the tensor \<open>get_kappa_s\<close> returned, and the source calls it
  with \<open>z_s\<close> as its argument.
\<close>

definition NFW_Psi ::
  "constants \<Rightarrow> (real \<Rightarrow> real \<Rightarrow> nfw_cosmology \<Rightarrow> real) \<Rightarrow> real \<Rightarrow> real \<Rightarrow> real \<Rightarrow> real
     \<Rightarrow> nfw_cosmology \<Rightarrow> real \<Rightarrow> real \<Rightarrow> real \<Rightarrow> real \<Rightarrow> py_error + real" where
  "NFW_Psi k get_Sigma_cr thx thy z_l z_s cosmo thx0 thy0 m c =
     transform_scalar_fn thx0 thy0 (\<lambda>thx thy.
       let d_l = angular_diameter_dist cosmo z_l;
           th = sqrt (thx\<^sup>2 + thy\<^sup>2);
           r_s = get_r_s z_l cosmo m c;
           xi = d_l * th * arcsec_to_rad k;
           x = xi / r_s;
           kappa_s = Tensor (get_kappa_s get_Sigma_cr z_l z_s cosmo m c)
       in bind_err (py_call kappa_s z_s) (\<lambda>v. Inr (4 * v * NFW_g x))) thx thy"

section \<open>The external shear (external shear module)\<close>

text \<open>
  \<open>torch.atan2\<close> is the two-argument arctangent of the C library, with values in
  \<open>(-pi, pi]\<close> on the reals.
\<close>

definition atan2 :: "real \<Rightarrow> real \<Rightarrow> real" where
  "atan2 y x =
     (if 0 < x then arctan (y / x)
      else if x < 0 then (if 0 \<le> y then arctan (y / x) + pi else arctan (y / x) - pi)
      else if 0 < y then pi / 2
      else if y < 0 then - (pi / 2)
      else 0)"

text \<open>
  \<open>str.lower\<close>, on the ASCII letters. Outside ASCII, the only characters whose
  lower case contains an ASCII letter are the Kelvin sign (it gives k) and the dotted
  capital I (it gives i followed by a combining dot); neither can produce one of the two
  words \<open>__init__\<close> compares with.
\<close>

definition lower_char :: "char \<Rightarrow> char" where
  "lower_char ch =
     (case map_of (zip ''ABCDEFGHIJKLMNOPQRSTUVWXYZ'' ''abcdefghijklmnopqrstuvwxyz'') ch of
        Some l \<Rightarrow> l
      | None \<Rightarrow> ch)"

definition lower :: "string \<Rightarrow> string" where
  "lower s = map lower_char s"

definition polar_to_cartesian :: "real \<Rightarrow> real \<Rightarrow> real \<times> real" where
  "polar_to_cartesian gamma phi =
     (let gamma_1 = gamma * cos (2 * phi);
          gamma_2 = gamma * sin (2 * phi)
      in (gamma_1, gamma_2))"

definition cartesian_to_polar :: "real \<Rightarrow> real \<Rightarrow> real \<times> real" where
  "cartesian_to_polar gamma_1 gamma_2 =
     (let gamma = sqrt (gamma_1\<^sup>2 + gamma_2\<^sup>2);
          phi = 0.5 * atan2 gamma_2 gamma_1
      in (gamma, phi))"

text \<open>
  Floating-point inputs can also be the negative zero, which \<open>torch.atan2\<close> tells
  from the positive one: for a first argument \<open>-0.0\<close> and a second argument with the
  sign bit set it returns \<open>- pi\<close>, and it returns a zero with the sign of the first
  argument when the second is positive or \<open>+0.0\<close>. An element is a real number
  (\<open>Elem 0\<close> is the positive zero) or the negative zero; \<open>_cartesian_to_polar\<close> on
  elements follows the source line by line, and \<open>0.5 * -0.0\<close> is \<open>-0.0\<close>.
\<close>

datatype element = Elem real | NegZero

fun elem_value :: "element \<Rightarrow> real" where
  "elem_value (Elem r) = r"
| "elem_value NegZero = 0"

fun sign_bit :: "element \<Rightarrow> bool" where
  "sign_bit (Elem r) = (r < 0)"
| "sign_bit NegZero = True"

definition atan2_signed :: "element \<Rightarrow> element \<Rightarrow> element" where
  "atan2_signed y x =
     (if elem_value y = 0 then
        (if sign_bit x then (if sign_bit y then Elem (- pi) else Elem pi) else y)
      else Elem (atan2 (elem_value y) (elem_value x)))"

definition cartesian_to_polar_signed :: "element \<Rightarrow> element \<Rightarrow> element \<times> element" where
  "cartesian_to_polar_signed gamma_1 gamma_2 =
     (let gamma = Elem (sqrt ((elem_value gamma_1)\<^sup>2 + (elem_value gamma_2)\<^sup>2));
          phi = (case atan2_signed gamma_2 gamma_1 of
                   NegZero \<Rightarrow> NegZero
                 | Elem a \<Rightarrow> Elem (0.5 * a))
      in (gamma, phi))"

text \<open>
  \<open>_convert_polar_to_cartesian\<close>: \<open>kwargs.get\<close> gives None for an absent key, and the
  arithmetic of \<open>_polar_to_cartesian\<close> on None raises \<open>TypeError\<close>.
\<close>

definition convert_polar_to_cartesian :: "(string \<rightharpoonup> real) \<Rightarrow> py_error + (string \<rightharpoonup> real)" where
  "convert_polar_to_cartesian kwargs =
     (case (kwargs ''gamma'', kwargs ''phi'') of
        (Some gamma, Some phi) \<Rightarrow>
          (case polar_to_cartesian gamma phi of
             (gamma_1, gamma_2) \<Rightarrow> Inr (kwargs(''gamma_1'' \<mapsto> gamma_1, ''gamma_2'' \<mapsto> gamma_2)))
      | _ \<Rightarrow> Inl TypeError)"

record 'c external_shear =
  es_name :: string
  es_cosmology :: 'c
  es_params :: params
  es_s :: real
  es_convert_params :: "(string \<rightharpoonup> real) \<Rightarrow> py_error + (string \<rightharpoonup> real)"

text \<open>
  \<open>__init__\<close>. The base class's \<open>__init__\<close> (its module is not among the sources)
  registers \<open>z_l\<close> first: superclass parameters come before subclass ones. The name is
  taken as given.
\<close>

definition ExternalShear_init ::
  "'c \<Rightarrow> real option \<Rightarrow> real option \<Rightarrow> real option \<Rightarrow> real option \<Rightarrow> real option \<Rightarrow> string
     \<Rightarrow> real \<Rightarrow> string \<Rightarrow> py_error + 'c external_shear" where
  "ExternalShear_init cosmo z_l gamma_1 gamma_2 gamma phi parametrization s name =
     (let ps0 = add_param [] ''z_l'' z_l in
      bind_err
        (if lower parametrization = ''cartesian''
           then Inr (add_param (add_param ps0 ''gamma_1'' gamma_1) ''gamma_2'' gamma_2)
         else if lower parametrization = ''polar''
           then Inr (add_param (add_param ps0 ''gamma'' gamma) ''phi'' phi)
         else Inl ValueError)
        (\<lambda>ps. Inr \<lparr> es_name = name, es_cosmology = cosmo, es_params = ps, es_s = s,
                    es_convert_params =
                      (if lower parametrization = ''cartesian'' then (\<lambda>kwargs. Inr kwargs)
                       else convert_polar_to_cartesian) \<rparr>))"

text \<open>
  The decorated methods: \<open>unpack\<close> resolves the parameters into keyword arguments,
  \<open>convert_params\<close> passes them through the instance's \<open>_convert_params\<close>, and the body
  runs on the result. A keyword the body uses and that is still None makes its
  arithmetic raise \<open>TypeError\<close>.
\<close>

definition resolved_kwargs ::
  "'c external_shear \<Rightarrow> packed option \<Rightarrow> py_error + (string \<rightharpoonup> real)" where
  "resolved_kwargs self P =
     bind_err (unpack_kwargs (es_name self) (es_params self) P) (es_convert_params self)"

definition ExternalShear_potential ::
  "'c external_shear \<Rightarrow> real \<Rightarrow> real \<Rightarrow> real \<Rightarrow> packed option \<Rightarrow> py_error + real" where
  "ExternalShear_potential self x y z_s P =
     bind_err (resolved_kwargs self P) (\<lambda>kwargs.
       case (kwargs ''gamma_1'', kwargs ''gamma_2'') of
         (Some gamma_1, Some gamma_2) \<Rightarrow>
           Inr (0.5 * gamma_1 * (x\<^sup>2 - y\<^sup>2) + gamma_2 * x * y)
       | _ \<Rightarrow> Inl TypeError)"

definition ExternalShear_reduced_deflection_angle ::
  "'c external_shear \<Rightarrow> real \<Rightarrow> real \<Rightarrow> real \<Rightarrow> packed option \<Rightarrow> py_error + real \<times> real" where
  "ExternalShear_reduced_deflection_angle self x y z_s P =
     bind_err (resolved_kwargs self P) (\<lambda>kwargs.
       case (kwargs ''gamma_1'', kwargs ''gamma_2'') of
         (Some gamma_1, Some gamma_2) \<Rightarrow>
           (let a1 = x * gamma_1 + y * gamma_2;
                a2 = x * gamma_2 - y * gamma_1
            in Inr (a1, a2))
       | _ \<Rightarrow> Inl TypeError)"

definition ExternalShear_convergence ::
  "'c external_shear \<Rightarrow> real \<Rightarrow> real \<Rightarrow> real \<Rightarrow> packed option \<Rightarrow> py_error + real" where
  "ExternalShear_convergence self x y z_s P =
     bind_err (resolved_kwargs self P) (\<lambda>kwargs. Inr 0)"

section \<open>Example inputs\<close>

text \<open>
  Concrete inputs on which the theorems below are evaluated. The constants are the usual
  values (\<open>pi / 648000\<close> radians to the arcsecond); the cosmologies and the lenses are
  small stand-ins for the external objects.
\<close>

definition example_constants :: constants where
  "example_constants =
     \<lparr> arcsec_to_rad = pi / 648000, rad_to_arcsec = 648000 / pi,
       c_Mpc_s = 97156 / 10 ^ 19, G_over_c2 = 47856 / 10 ^ 24 \<rparr>"

definition example_cosmology :: cosmology where
  "example_cosmology =
     \<lparr> angular_diameter_distance = (\<lambda>z P. Inr (1000 * z)),
       angular_diameter_distance_z1z2 = (\<lambda>z1 z2 P. Inr (1000 * (z2 - z1))) \<rparr>"

definition example_thin_lens :: thin_lens where
  "example_thin_lens =
     \<lparr> thin_name = ''lens'', thin_cosmology = example_cosmology,
       thin_params = [(''z_l'', Some (1 / 2))],
       thin_deflection_angle = (\<lambda>x y z_s P. Inr (x / 10, y / 10)),
       thin_potential = (\<lambda>x y z_s P. Inr ((x\<^sup>2 + y\<^sup>2) / 20)) \<rparr>"

definition example_thick_lens :: thick_lens where
  "example_thick_lens =
     \<lparr> thick_name = ''planes'', thick_cosmology = example_cosmology,
       thick_deflection_angle = (\<lambda>x y z_s P. Inr (x / 5, y / 5)) \<rparr>"

definition example_nfw_cosmology :: nfw_cosmology where
  "example_nfw_cosmology =
     \<lparr> rho_cr = (\<lambda>z. 3 / (800 * pi)),
       angular_diameter_dist = (\<lambda>z. 648000 / pi),
       angular_diameter_dist_z1z2 = (\<lambda>z1 z2. 648000 / pi) \<rparr>"

section \<open>Basic facts\<close>

lemma bind_err_Inr: "bind_err (Inr v) f = f v"
  by (simp add: bind_err_def)

lemma bind_err_Inl: "bind_err (Inl e) f = Inl e"
  by (simp add: bind_err_def)

lemma lower_cartesian: "lower ''cartesian'' = ''cartesian''"
  by (simp add: lower_def lower_char_def)

lemma lower_elliptical: "lower ''elliptical'' = ''elliptical''"
  by (simp add: lower_def lower_char_def)

section \<open>The thin and thick lens contract\<close>

text \<open>
  C5. For a thin lens and for a thick lens, whenever \<open>deflection_angle\<close> returns
  \<open>(ax, ay)\<close> at \<open>(x, y, z_s, P)\<close>, \<open>raytrace\<close> returns \<open>(x - ax, y - ay)\<close>.
\<close>

theorem raytrace_subtracts_deflection:
  assumes "thin_deflection_angle thin x y z_s P = Inr (ax, ay)"
    and "thick_deflection_angle thick x' y' z_s' P' = Inr (ax', ay')"
  shows "ThinLens_raytrace thin x y z_s P = Inr (x - ax, y - ay)
       \<and> ThickLens_raytrace thick x' y' z_s' P' = Inr (x' - ax', y' - ay')"
  using assms by (simp add: ThinLens_raytrace_def ThickLens_raytrace_def bind_err_Inr)

theorem raytrace_subtracts_deflection_witness:
  "thin_deflection_angle example_thin_lens 1 2 (3 / 2) None = Inr (1 / 10, 2 / 10)
   \<and> thick_deflection_angle example_thick_lens 1 2 (3 / 2) None = Inr (1 / 5, 2 / 5)
   \<and> ThinLens_raytrace example_thin_lens 1 2 (3 / 2) None = Inr (1 - 1 / 10, 2 - 2 / 10)
   \<and> ThickLens_raytrace example_thick_lens 1 2 (3 / 2) None = Inr (1 - 1 / 5, 2 - 2 / 5)"
proof -
  have a: "thin_deflection_angle example_thin_lens 1 2 (3 / 2) None = Inr (1 / 10, 2 / 10)"
    by (simp add: example_thin_lens_def)
  have b: "thick_deflection_angle example_thick_lens 1 2 (3 / 2) None = Inr (1 / 5, 2 / 5)"
    by (simp add: example_thick_lens_def)
  from raytrace_subtracts_deflection [OF a b] a b show ?thesis
    by blast
qed

text \<open>
  C4. When \<open>z_l\<close> resolves as the first parameter, the cosmology returns the distances
  \<open>D_l\<close>, \<open>D_s\<close>, \<open>D_ls\<close>, and the deflection angle \<open>(ax, ay)\<close> and the potential
  \<open>psi\<close> are returned, \<open>time_delay\<close> returns
  \<open>(1 + z_l) / c * (D_s * D_l / D_ls) * (1/2 * (D_ls / D_s)\<^sup>2 * (ax\<^sup>2 + ay\<^sup>2) - psi)
  * arcsec_to_rad\<^sup>2\<close>.
\<close>

theorem time_delay_formula:
  assumes "unpack (thin_name self) (thin_params self) P = Inr (z_l # rest)"
    and "angular_diameter_distance (thin_cosmology self) z_l P = Inr D_l"
    and "angular_diameter_distance (thin_cosmology self) z_s P = Inr D_s"
    and "angular_diameter_distance_z1z2 (thin_cosmology self) z_l z_s P = Inr D_ls"
    and "thin_deflection_angle self x y z_s P = Inr (ax, ay)"
    and "thin_potential self x y z_s P = Inr psi"
  shows "ThinLens_time_delay k self x y z_s P =
           Inr ((1 + z_l) / c_Mpc_s k * (D_s * D_l / D_ls)
                * (1 / 2 * (D_ls / D_s)\<^sup>2 * (ax\<^sup>2 + ay\<^sup>2) - psi)
                * (arcsec_to_rad k)\<^sup>2)"
  using assms
  by (simp add: ThinLens_time_delay_def bind_err_Inr index0_def Let_def power_divide)

theorem time_delay_formula_witness:
  "unpack (thin_name example_thin_lens) (thin_params example_thin_lens) None = Inr [1 / 2]
   \<and> angular_diameter_distance (thin_cosmology example_thin_lens) (1 / 2) None = Inr 500
   \<and> angular_diameter_distance (thin_cosmology example_thin_lens) (3 / 2) None = Inr 1500
   \<and> angular_diameter_distance_z1z2 (thin_cosmology example_thin_lens) (1 / 2) (3 / 2) None
       = Inr 1000
   \<and> thin_deflection_angle example_thin_lens 1 0 (3 / 2) None = Inr (1 / 10, 0)
   \<and> thin_potential example_thin_lens 1 0 (3 / 2) None = Inr (1 / 20)
   \<and> ThinLens_time_delay example_constants example_thin_lens 1 0 (3 / 2) None =
        Inr ((1 + 1 / 2) / c_Mpc_s example_constants * (1500 * 500 / 1000)
                * (1 / 2 * (1000 / 1500)\<^sup>2 * ((1 / 10)\<^sup>2 + 0\<^sup>2) - 1 / 20)
                * (arcsec_to_rad example_constants)\<^sup>2)"
proof -
  have u: "unpack (thin_name example_thin_lens) (thin_params example_thin_lens) None = Inr [1 / 2]"
    by (simp add: example_thin_lens_def unpack_def resolve_param_def overridden_def bind_err_Inr)
  have dl: "angular_diameter_distance (thin_cosmology example_thin_lens) (1 / 2) None = Inr 500"
    by (simp add: example_thin_lens_def example_cosmology_def)
  have ds: "angular_diameter_distance (thin_cosmology example_thin_lens) (3 / 2) None = Inr 1500"
    by (simp add: example_thin_lens_def example_cosmology_def)
  have dls: "angular_diameter_distance_z1z2 (thin_cosmology example_thin_lens) (1 / 2) (3 / 2) None
               = Inr 1000"
    by (simp add: example_thin_lens_def example_cosmology_def)
  have a: "thin_deflection_angle example_thin_lens 1 0 (3 / 2) None = Inr (1 / 10, 0)"
    by (simp add: example_thin_lens_def)
  have p: "thin_potential example_thin_lens 1 0 (3 / 2) None = Inr (1 / 20)"
    by (simp add: example_thin_lens_def)
  from time_delay_formula [OF u dl ds dls a p, of example_constants] u dl ds dls a p
  show ?thesis
    by blast
qed

section \<open>The NFW profile\<close>

text \<open>
  C1. The claim relates the potential returned by \<open>Psi\<close> to \<open>kappa\<close> and
  \<open>alpha_hat\<close>. On every input \<open>Psi\<close> returns no potential: it raises \<open>TypeError\<close>,
  because it calls the tensor \<open>kappa_s\<close>.
\<close>

theorem NFW_Psi_raises_TypeError:
  "NFW_Psi k get_Sigma_cr thx thy z_l z_s cosmo thx0 thy0 m c = Inl TypeError"
  by (simp add: NFW_Psi_def transform_scalar_fn_def Let_def py_call_def bind_err_Inl)

text \<open>
  C3. Where the dimensionless radius of the shifted coordinates is exactly 1, \<open>kappa\<close>
  divides \<open>2 * kappa_s * 0\<close> by \<open>1\<^sup>2 - 1 = 0\<close> with no guard, and the result is NaN.
\<close>

theorem NFW_kappa_NaN_at_unit_radius:
  assumes "NFW_x k (thx - thx0) (thy - thy0) z_l cosmo m c = 1"
  shows "NFW_kappa k get_Sigma_cr thx thy z_l z_s cosmo thx0 thy0 m c = NaN"
proof -
  have x1: "angular_diameter_dist cosmo z_l * sqrt ((thx - thx0)\<^sup>2 + (thy - thy0)\<^sup>2)
              * arcsec_to_rad k / get_r_s z_l cosmo m c = 1"
    using assms unfolding NFW_x_def Let_def .
  have f1: "NFW_f 1 = 0"
    by (simp add: NFW_f_def)
  show ?thesis
    unfolding NFW_kappa_def transform_scalar_fn_def Let_def x1 f1
    by (simp add: tensor_div_def)
qed

theorem NFW_kappa_NaN_at_unit_radius_witness:
  "NFW_x example_constants (1 - 0) (0 - 0) (1 / 2) example_nfw_cosmology 1 1 = 1
   \<and> NFW_kappa example_constants (\<lambda>z_l z_s cosmo. 1) 1 0 (1 / 2) (3 / 2)
        example_nfw_cosmology 0 0 1 1 = NaN"
proof -
  have x: "NFW_x example_constants (1 - 0) (0 - 0) (1 / 2) example_nfw_cosmology 1 1 = 1"
    by (simp add: NFW_x_def example_constants_def example_nfw_cosmology_def get_r_s_def DELTA_def)
  from NFW_kappa_NaN_at_unit_radius [OF x] x show ?thesis
    by blast
qed

subsection \<open>The auxiliary functions F, G and H\<close>

text \<open>Difference quotients of \<open>arctan\<close> and \<open>artanh\<close> at 0.\<close>

lemma arctan_ratio: "((\<lambda>u. arctan u / u) \<longlongrightarrow> 1) (at 0)"
proof -
  have "(arctan has_real_derivative 1) (at 0)"
    using DERIV_arctan [of 0] by simp
  then show ?thesis
    by (simp add: has_field_derivative_iff)
qed

lemma artanh_ratio: "((\<lambda>u::real. artanh u / u) \<longlongrightarrow> 1) (at 0)"
proof -
  have "(artanh has_real_derivative 1) (at 0)"
    using artanh_real_has_field_derivative [of 0 UNIV] by simp
  then show ?thesis
    by (simp add: has_field_derivative_iff)
qed

lemma eventually_left_of_1: "eventually (\<lambda>x::real. 0 < x \<and> x < 1) (at_left 1)"
proof -
  have "eventually (\<lambda>x::real. x \<in> {0<..<1}) (at_left 1)"
    by (rule eventually_at_left_real) simp
  then show ?thesis by simp
qed

lemma sqrt_x2m1:
  assumes "1 < x"
  shows "sqrt (x\<^sup>2 - 1) = (x + 1) * sqrt ((x - 1) / (x + 1))"
proof -
  have "(x + 1) * sqrt ((x - 1) / (x + 1)) = sqrt ((x + 1)\<^sup>2) * sqrt ((x - 1) / (x + 1))"
    using assms by simp
  also have "\<dots> = sqrt ((x + 1)\<^sup>2 * ((x - 1) / (x + 1)))"
    by (simp only: real_sqrt_mult)
  also have "(x + 1)\<^sup>2 * ((x - 1) / (x + 1)) = x\<^sup>2 - 1"
    using assms by (simp add: power2_eq_square field_simps)
  finally show ?thesis by simp
qed

lemma sqrt_1mx2:
  assumes "- 1 < x" "x < 1"
  shows "sqrt (1 - x\<^sup>2) = (1 + x) * sqrt ((1 - x) / (1 + x))"
proof -
  have "(1 + x) * sqrt ((1 - x) / (1 + x)) = sqrt ((1 + x)\<^sup>2) * sqrt ((1 - x) / (1 + x))"
    using assms by simp
  also have "\<dots> = sqrt ((1 + x)\<^sup>2 * ((1 - x) / (1 + x)))"
    by (simp only: real_sqrt_mult)
  also have "(1 + x)\<^sup>2 * ((1 - x) / (1 + x)) = 1 - x\<^sup>2"
    using assms by (simp add: power2_eq_square field_simps)
  finally show ?thesis by simp
qed

lemma u_gt_tendsto: "((\<lambda>x::real. sqrt ((x - 1) / (x + 1))) \<longlongrightarrow> 0) (at 1 within A)"
proof -
  have "((\<lambda>x::real. sqrt ((x - 1) / (x + 1))) \<longlongrightarrow> sqrt ((1 - 1) / (1 + 1))) (at 1 within A)"
    by (intro tendsto_intros) simp_all
  then show ?thesis by simp
qed

lemma u_lt_tendsto: "((\<lambda>x::real. sqrt ((1 - x) / (1 + x))) \<longlongrightarrow> 0) (at 1 within A)"
proof -
  have "((\<lambda>x::real. sqrt ((1 - x) / (1 + x))) \<longlongrightarrow> sqrt ((1 - 1) / (1 + 1))) (at 1 within A)"
    by (intro tendsto_intros) simp_all
  then show ?thesis by simp
qed

lemma u_gt_filterlim: "filterlim (\<lambda>x::real. sqrt ((x - 1) / (x + 1))) (at 0) (at_right 1)"
proof -
  have "eventually (\<lambda>x::real. sqrt ((x - 1) / (x + 1)) \<noteq> 0) (at_right 1)"
    using eventually_at_right_less [of "1::real"]
    by eventually_elim simp
  with u_gt_tendsto show ?thesis
    by (simp add: filterlim_at)
qed

lemma u_lt_filterlim: "filterlim (\<lambda>x::real. sqrt ((1 - x) / (1 + x))) (at 0) (at_left 1)"
proof -
  have "eventually (\<lambda>x::real. sqrt ((1 - x) / (1 + x)) \<noteq> 0) (at_left 1)"
    using eventually_left_of_1
    by eventually_elim simp
  with u_lt_tendsto show ?thesis
    by (simp add: filterlim_at)
qed

text \<open>The second term of F and H on each side of 1.\<close>

lemma term_gt_tendsto:
  "((\<lambda>x. 2 / sqrt (x\<^sup>2 - 1) * arctan (sqrt ((x - 1) / (x + 1)))) \<longlongrightarrow> 1) (at_right 1)"
proof -
  have r: "((\<lambda>x. arctan (sqrt ((x - 1) / (x + 1))) / sqrt ((x - 1) / (x + 1))) \<longlongrightarrow> 1) (at_right 1)"
    by (rule filterlim_compose [OF arctan_ratio u_gt_filterlim])
  have "((\<lambda>x. 2 / (x + 1) * (arctan (sqrt ((x - 1) / (x + 1))) / sqrt ((x - 1) / (x + 1))))
          \<longlongrightarrow> 2 / (1 + 1) * 1) (at_right 1)"
    by (intro tendsto_intros r) simp_all
  then have l: "((\<lambda>x. 2 / (x + 1) * (arctan (sqrt ((x - 1) / (x + 1))) / sqrt ((x - 1) / (x + 1))))
          \<longlongrightarrow> 1) (at_right 1)"
    by simp
  have e: "eventually (\<lambda>x. 2 / (x + 1) * (arctan (sqrt ((x - 1) / (x + 1))) / sqrt ((x - 1) / (x + 1)))
                          = 2 / sqrt (x\<^sup>2 - 1) * arctan (sqrt ((x - 1) / (x + 1)))) (at_right 1)"
    using eventually_at_right_less [of "1::real"]
    by eventually_elim (simp add: sqrt_x2m1)
  from Lim_transform_eventually [OF l e] show ?thesis .
qed

lemma term_lt_tendsto:
  "((\<lambda>x. 2 / sqrt (1 - x\<^sup>2) * artanh (sqrt ((1 - x) / (1 + x)))) \<longlongrightarrow> 1) (at_left 1)"
proof -
  have r: "((\<lambda>x. artanh (sqrt ((1 - x) / (1 + x))) / sqrt ((1 - x) / (1 + x))) \<longlongrightarrow> 1) (at_left 1)"
    by (rule filterlim_compose [OF artanh_ratio u_lt_filterlim])
  have "((\<lambda>x. 2 / (1 + x) * (artanh (sqrt ((1 - x) / (1 + x))) / sqrt ((1 - x) / (1 + x))))
          \<longlongrightarrow> 2 / (1 + 1) * 1) (at_left 1)"
    by (intro tendsto_intros r) simp_all
  then have l: "((\<lambda>x. 2 / (1 + x) * (artanh (sqrt ((1 - x) / (1 + x))) / sqrt ((1 - x) / (1 + x))))
          \<longlongrightarrow> 1) (at_left 1)"
    by simp
  have e: "eventually (\<lambda>x. 2 / (1 + x) * (artanh (sqrt ((1 - x) / (1 + x))) / sqrt ((1 - x) / (1 + x)))
                          = 2 / sqrt (1 - x\<^sup>2) * artanh (sqrt ((1 - x) / (1 + x)))) (at_left 1)"
    using eventually_left_of_1
    by eventually_elim (simp add: sqrt_1mx2)
  from Lim_transform_eventually [OF l e] show ?thesis .
qed

text \<open>Values and one-sided limits at the branch point.\<close>

lemma NFW_f_at_1: "NFW_f 1 = 0"
  by (simp add: NFW_f_def)

lemma NFW_g_at_1: "NFW_g 1 = 1 / 2 * (ln (1 / 2))\<^sup>2"
  by (simp add: NFW_g_def)

lemma NFW_h_at_1: "NFW_h 1 = ln (1 / 2) + 1"
  by (simp add: NFW_h_def)

lemma NFW_f_right: "(NFW_f \<longlongrightarrow> 0) (at_right 1)"
proof -
  have "((\<lambda>x. 1 - 2 / sqrt (x\<^sup>2 - 1) * arctan (sqrt ((x - 1) / (x + 1)))) \<longlongrightarrow> 1 - 1) (at_right 1)"
    by (intro tendsto_diff tendsto_const term_gt_tendsto)
  then have l: "((\<lambda>x. 1 - 2 / sqrt (x\<^sup>2 - 1) * arctan (sqrt ((x - 1) / (x + 1)))) \<longlongrightarrow> 0) (at_right 1)"
    by simp
  have e: "eventually (\<lambda>x. 1 - 2 / sqrt (x\<^sup>2 - 1) * arctan (sqrt ((x - 1) / (x + 1))) = NFW_f x) (at_right 1)"
    using eventually_at_right_less [of "1::real"]
    by eventually_elim (simp add: NFW_f_def)
  from Lim_transform_eventually [OF l e] show ?thesis .
qed

lemma NFW_f_left: "(NFW_f \<longlongrightarrow> 0) (at_left 1)"
proof -
  have "((\<lambda>x. 1 - 2 / sqrt (1 - x\<^sup>2) * artanh (sqrt ((1 - x) / (1 + x)))) \<longlongrightarrow> 1 - 1) (at_left 1)"
    by (intro tendsto_diff tendsto_const term_lt_tendsto)
  then have l: "((\<lambda>x. 1 - 2 / sqrt (1 - x\<^sup>2) * artanh (sqrt ((1 - x) / (1 + x)))) \<longlongrightarrow> 0) (at_left 1)"
    by simp
  have e: "eventually (\<lambda>x. 1 - 2 / sqrt (1 - x\<^sup>2) * artanh (sqrt ((1 - x) / (1 + x))) = NFW_f x) (at_left 1)"
    using eventually_left_of_1
    by eventually_elim (simp add: NFW_f_def)
  from Lim_transform_eventually [OF l e] show ?thesis .
qed

lemma isCont_NFW_f: "isCont NFW_f 1"
  unfolding isCont_def NFW_f_at_1
  by (rule filterlim_split_at [OF NFW_f_left NFW_f_right])

lemma ln_half_tendsto: "((\<lambda>x::real. ln (x / 2)) \<longlongrightarrow> ln (1 / 2)) (at 1 within A)"
  by (intro tendsto_intros) simp_all

lemma NFW_h_right: "(NFW_h \<longlongrightarrow> ln (1 / 2) + 1) (at_right 1)"
proof -
  have l: "((\<lambda>x. ln (x / 2) + 2 / sqrt (x\<^sup>2 - 1) * arctan (sqrt ((x - 1) / (x + 1))))
             \<longlongrightarrow> ln (1 / 2) + 1) (at_right 1)"
    by (intro tendsto_add ln_half_tendsto term_gt_tendsto)
  have e: "eventually (\<lambda>x. ln (x / 2) + 2 / sqrt (x\<^sup>2 - 1) * arctan (sqrt ((x - 1) / (x + 1))) = NFW_h x)
             (at_right 1)"
    using eventually_at_right_less [of "1::real"]
    by eventually_elim (simp add: NFW_h_def)
  from Lim_transform_eventually [OF l e] show ?thesis .
qed

lemma NFW_h_left: "(NFW_h \<longlongrightarrow> ln (1 / 2) + 1) (at_left 1)"
proof -
  have l: "((\<lambda>x. ln (x / 2) + 2 / sqrt (1 - x\<^sup>2) * artanh (sqrt ((1 - x) / (1 + x))))
             \<longlongrightarrow> ln (1 / 2) + 1) (at_left 1)"
    by (intro tendsto_add ln_half_tendsto term_lt_tendsto)
  have e: "eventually (\<lambda>x. ln (x / 2) + 2 / sqrt (1 - x\<^sup>2) * artanh (sqrt ((1 - x) / (1 + x))) = NFW_h x)
             (at_left 1)"
    using eventually_left_of_1
    by eventually_elim (simp add: NFW_h_def)
  from Lim_transform_eventually [OF l e] show ?thesis .
qed

lemma isCont_NFW_h: "isCont NFW_h 1"
  unfolding isCont_def NFW_h_at_1
  by (rule filterlim_split_at [OF NFW_h_left NFW_h_right])

lemma NFW_g_right: "(NFW_g \<longlongrightarrow> 1 / 2 * (ln (1 / 2))\<^sup>2) (at_right 1)"
proof -
  have "((\<lambda>x. 1 / 2 * (ln (x / 2))\<^sup>2 + 2 * (arctan (sqrt ((x - 1) / (x + 1))))\<^sup>2)
             \<longlongrightarrow> 1 / 2 * (ln (1 / 2))\<^sup>2 + 2 * (arctan 0)\<^sup>2) (at_right 1)"
    by (intro tendsto_intros ln_half_tendsto u_gt_tendsto)
  then have l: "((\<lambda>x. 1 / 2 * (ln (x / 2))\<^sup>2 + 2 * (arctan (sqrt ((x - 1) / (x + 1))))\<^sup>2)
             \<longlongrightarrow> 1 / 2 * (ln (1 / 2))\<^sup>2) (at_right 1)"
    by simp
  have e: "eventually (\<lambda>x. 1 / 2 * (ln (x / 2))\<^sup>2 + 2 * (arctan (sqrt ((x - 1) / (x + 1))))\<^sup>2 = NFW_g x)
             (at_right 1)"
    using eventually_at_right_less [of "1::real"]
    by eventually_elim (simp add: NFW_g_def)
  from Lim_transform_eventually [OF l e] show ?thesis .
qed

lemma NFW_g_left: "(NFW_g \<longlongrightarrow> 1 / 2 * (ln (1 / 2))\<^sup>2) (at_left 1)"
proof -
  have "((\<lambda>x. 1 / 2 * (ln (x / 2))\<^sup>2 + - 2 * (artanh (sqrt ((1 - x) / (1 + x))))\<^sup>2)
             \<longlongrightarrow> 1 / 2 * (ln (1 / 2))\<^sup>2 + - 2 * (artanh 0)\<^sup>2) (at_left 1)"
    by (intro tendsto_intros ln_half_tendsto u_lt_tendsto) simp_all
  then have l: "((\<lambda>x. 1 / 2 * (ln (x / 2))\<^sup>2 + - 2 * (artanh (sqrt ((1 - x) / (1 + x))))\<^sup>2)
             \<longlongrightarrow> 1 / 2 * (ln (1 / 2))\<^sup>2) (at_left 1)"
    by simp
  have e: "eventually (\<lambda>x. 1 / 2 * (ln (x / 2))\<^sup>2 + - 2 * (artanh (sqrt ((1 - x) / (1 + x))))\<^sup>2 = NFW_g x)
             (at_left 1)"
    using eventually_left_of_1
    by eventually_elim (simp add: NFW_g_def)
  from Lim_transform_eventually [OF l e] show ?thesis .
qed

lemma isCont_NFW_g: "isCont NFW_g 1"
  unfolding isCont_def NFW_g_at_1
  by (rule filterlim_split_at [OF NFW_g_left NFW_g_right])

text \<open>F as \<open>x\<close> tends to 0 from above and as \<open>x\<close> grows.\<close>

lemma eventually_right_of_0: "eventually (\<lambda>x::real. 0 < x \<and> x < 1) (at_right 0)"
proof -
  have "eventually (\<lambda>x::real. x \<in> {0<..<1}) (at_right 0)"
    by (rule eventually_at_right_real) simp
  then show ?thesis by simp
qed

lemma u_lt_at_0: "filterlim (\<lambda>x::real. sqrt ((1 - x) / (1 + x))) (at_left 1) (at_right 0)"
proof -
  have "((\<lambda>x::real. sqrt ((1 - x) / (1 + x))) \<longlongrightarrow> sqrt ((1 - 0) / (1 + 0))) (at_right 0)"
    by (intro tendsto_intros) simp_all
  then have t: "((\<lambda>x::real. sqrt ((1 - x) / (1 + x))) \<longlongrightarrow> 1) (at_right 0)"
    by simp
  have "eventually (\<lambda>x::real. sqrt ((1 - x) / (1 + x)) \<in> {..<1} \<and> sqrt ((1 - x) / (1 + x)) \<noteq> 1) (at_right 0)"
    using eventually_right_of_0
  proof eventually_elim
    case (elim x)
    define u where "u = sqrt ((1 - x) / (1 + x))"
    from elim have "(1 - x) / (1 + x) < 1" by simp
    then have "u < 1" by (simp add: u_def)
    then have "u \<in> {..<1} \<and> u \<noteq> 1" by simp
    then show ?case unfolding u_def .
  qed
  with t show ?thesis
    by (simp add: filterlim_at)
qed

lemma NFW_f_at_0: "filterlim NFW_f at_bot (at_right 0)"
proof -
  have a: "filterlim (\<lambda>x::real. artanh (sqrt ((1 - x) / (1 + x)))) at_top (at_right 0)"
    by (rule filterlim_compose [OF artanh_real_at_left_1 u_lt_at_0])
  then have big: "eventually (\<lambda>x::real. 1 \<le> artanh (sqrt ((1 - x) / (1 + x)))) (at_right 0)"
    by (simp add: filterlim_at_top)
  have "eventually (\<lambda>x. artanh (sqrt ((1 - x) / (1 + x))) \<le> - NFW_f x) (at_right 0)"
    using eventually_right_of_0 big
  proof eventually_elim
    case (elim x)
    define a where "a = artanh (sqrt ((1 - x) / (1 + x)))"
    have a1: "1 \<le> a"
      using elim(2) by (simp add: a_def)
    have s: "0 < sqrt (1 - x\<^sup>2)" "sqrt (1 - x\<^sup>2) \<le> 1"
    proof -
      from elim(1) have "x\<^sup>2 < 1" by (simp add: abs_square_less_1)
      then show "0 < sqrt (1 - x\<^sup>2)" by simp
      show "sqrt (1 - x\<^sup>2) \<le> 1" by simp
    qed
    then have "2 \<le> 2 / sqrt (1 - x\<^sup>2)"
      by (simp add: field_simps)
    with a1 have "2 * a \<le> 2 / sqrt (1 - x\<^sup>2) * a"
      by (intro mult_right_mono) simp_all
    moreover have "NFW_f x = 1 - 2 / sqrt (1 - x\<^sup>2) * a"
      using elim(1) by (simp add: NFW_f_def a_def)
    ultimately show ?case
      unfolding a_def [symmetric] using a1 by linarith
  qed
  from filterlim_at_top_mono [OF a this] show ?thesis
    by (simp add: filterlim_uminus_at_bot)
qed

lemma x2m1_at_top: "filterlim (\<lambda>x::real. sqrt (x\<^sup>2 - 1)) at_top at_top"
proof -
  have "filterlim (\<lambda>x::real. x\<^sup>2 - 1) at_top at_top"
  proof (rule filterlim_at_top_mono [OF filterlim_ident])
    show "eventually (\<lambda>x::real. x \<le> x\<^sup>2 - 1) at_top"
      using eventually_ge_at_top [of "2::real"]
    proof eventually_elim
      case (elim x)
      then have "2 * x \<le> x * x" by (intro mult_right_mono) simp_all
      with elim show ?case unfolding power2_eq_square by linarith
    qed
  qed
  from filterlim_compose [OF sqrt_at_top this] show ?thesis .
qed

lemma NFW_f_at_top: "(NFW_f \<longlongrightarrow> 1) at_top"
proof -
  have z: "((\<lambda>x::real. pi / sqrt (x\<^sup>2 - 1)) \<longlongrightarrow> 0) at_top"
    by (rule tendsto_divide_0 [OF tendsto_const filterlim_at_top_imp_at_infinity [OF x2m1_at_top]])
  have lo: "eventually (\<lambda>x. 0 \<le> 2 / sqrt (x\<^sup>2 - 1) * arctan (sqrt ((x - 1) / (x + 1)))) at_top"
    using eventually_gt_at_top [of "1::real"]
  proof eventually_elim
    case (elim x)
    then show ?case
      by (intro mult_nonneg_nonneg divide_nonneg_nonneg) (simp_all add: zero_le_arctan_iff)
  qed
  have hi: "eventually (\<lambda>x. 2 / sqrt (x\<^sup>2 - 1) * arctan (sqrt ((x - 1) / (x + 1)))
                            \<le> pi / sqrt (x\<^sup>2 - 1)) at_top"
    using eventually_gt_at_top [of "1::real"]
  proof eventually_elim
    case (elim x)
    have "arctan (sqrt ((x - 1) / (x + 1))) \<le> pi / 2"
      using arctan_ubound [of "sqrt ((x - 1) / (x + 1))"] by simp
    moreover have "0 \<le> 2 / sqrt (x\<^sup>2 - 1)"
      using elim by simp
    ultimately have "2 / sqrt (x\<^sup>2 - 1) * arctan (sqrt ((x - 1) / (x + 1)))
                       \<le> 2 / sqrt (x\<^sup>2 - 1) * (pi / 2)"
      by (rule mult_left_mono)
    then show ?case by simp
  qed
  have t: "((\<lambda>x. 2 / sqrt (x\<^sup>2 - 1) * arctan (sqrt ((x - 1) / (x + 1)))) \<longlongrightarrow> 0) at_top"
    by (rule tendsto_sandwich [OF lo hi tendsto_const z])
  have "((\<lambda>x. 1 - 2 / sqrt (x\<^sup>2 - 1) * arctan (sqrt ((x - 1) / (x + 1)))) \<longlongrightarrow> 1 - 0) at_top"
    by (intro tendsto_diff tendsto_const t)
  then have l: "((\<lambda>x. 1 - 2 / sqrt (x\<^sup>2 - 1) * arctan (sqrt ((x - 1) / (x + 1)))) \<longlongrightarrow> 1) at_top"
    by simp
  have e: "eventually (\<lambda>x. 1 - 2 / sqrt (x\<^sup>2 - 1) * arctan (sqrt ((x - 1) / (x + 1))) = NFW_f x) at_top"
    using eventually_gt_at_top [of "1::real"]
    by eventually_elim (simp add: NFW_f_def)
  from Lim_transform_eventually [OF l e] show ?thesis .
qed

text \<open>The special values: at \<open>x = 0\<close>, and their absence from \<open>x = 1\<close> on.\<close>

lemma NFW_ieee_at_0: "NFW_f_ieee 0 = NegInf \<and> NFW_g_ieee 0 = NaN \<and> NFW_h_ieee 0 = NaN"
  by (simp add: NFW_f_ieee_def NFW_g_ieee_def NFW_h_ieee_def tv_sub_def tv_square_def
      tensor_div_def)

lemma NFW_ieee_above_1:
  assumes "1 < x"
  shows "NFW_f_ieee x = Finite (NFW_f x) \<and> NFW_g_ieee x = Finite (NFW_g x)
       \<and> NFW_h_ieee x = Finite (NFW_h x)"
proof -
  from assms have "1 < x\<^sup>2" by (simp add: power2_eq_square less_1_mult)
  then have a: "\<not> x * x - 1 < 0" "sqrt (x * x - 1) \<noteq> 0"
    by (simp_all add: power2_eq_square)
  from assms have nn: "0 \<le> (x - 1) / (x + 1)"
    by (intro divide_nonneg_pos) simp_all
  have b: "x + 1 \<noteq> 0" "\<not> (x - 1) / (x + 1) < 0" "x \<noteq> 0"
    using assms nn by linarith+
  show ?thesis
    using assms a b
    by (simp add: NFW_f_ieee_def NFW_g_ieee_def NFW_h_ieee_def NFW_f_def NFW_g_def NFW_h_def
        tv_sub_def tv_square_def tensor_div_def power2_eq_square)
qed

lemma NFW_ieee_at_1:
  "NFW_f_ieee 1 = Finite (NFW_f 1) \<and> NFW_g_ieee 1 = Finite (NFW_g 1)
   \<and> NFW_h_ieee 1 = Finite (NFW_h 1)"
  by (simp add: NFW_f_ieee_def NFW_g_ieee_def NFW_h_ieee_def NFW_f_def NFW_g_def NFW_h_def
      tv_square_def tensor_div_def power2_eq_square)

lemma NFW_ieee_from_1:
  "\<forall>x. 1 \<le> x \<longrightarrow> NFW_f_ieee x = Finite (NFW_f x) \<and> NFW_g_ieee x = Finite (NFW_g x)
                    \<and> NFW_h_ieee x = Finite (NFW_h x)"
proof (intro allI impI)
  fix x :: real
  assume "1 \<le> x"
  then consider "x = 1" | "1 < x" by linarith
  then show "NFW_f_ieee x = Finite (NFW_f x) \<and> NFW_g_ieee x = Finite (NFW_g x)
               \<and> NFW_h_ieee x = Finite (NFW_h x)"
  proof cases
    case 1
    then show ?thesis using NFW_ieee_at_1 by simp
  next
    case 2
    then show ?thesis by (rule NFW_ieee_above_1)
  qed
qed

text \<open>
  C2, as the code has it. Each of F, G and H is continuous at \<open>x = 1\<close>, where its
  value is the one the claim gives. At every \<open>x\<close> from 1 on, each returns a finite
  value, and F tends to 1 as \<open>x\<close> grows. Towards 0 the values are not finite: F tends to
  minus infinity as \<open>x\<close> tends to 0 from above, and at \<open>x = 0\<close> F returns minus infinity
  and G and H return NaN.
\<close>

theorem NFW_auxiliary_functions_at_the_branch_point_and_beyond:
  "isCont NFW_f 1 \<and> isCont NFW_g 1 \<and> isCont NFW_h 1
   \<and> NFW_f 1 = 0 \<and> NFW_g 1 = 1 / 2 * (ln (1 / 2))\<^sup>2 \<and> NFW_h 1 = ln (1 / 2) + 1
   \<and> (\<forall>x. 1 \<le> x \<longrightarrow> NFW_f_ieee x = Finite (NFW_f x) \<and> NFW_g_ieee x = Finite (NFW_g x)
                      \<and> NFW_h_ieee x = Finite (NFW_h x))
   \<and> (NFW_f \<longlongrightarrow> 1) at_top
   \<and> filterlim NFW_f at_bot (at_right 0)
   \<and> NFW_f_ieee 0 = NegInf \<and> NFW_g_ieee 0 = NaN \<and> NFW_h_ieee 0 = NaN"
  using NFW_ieee_at_0
  by (intro conjI isCont_NFW_f isCont_NFW_g isCont_NFW_h NFW_f_at_1 NFW_g_at_1 NFW_h_at_1
      NFW_ieee_from_1 NFW_f_at_top NFW_f_at_0) simp_all

theorem NFW_auxiliary_functions_at_the_branch_point_and_beyond_witness:
  "(1::real) \<le> 2 \<and> NFW_f_ieee 2 = Finite (NFW_f 2) \<and> NFW_g_ieee 2 = Finite (NFW_g 2)
   \<and> NFW_h_ieee 2 = Finite (NFW_h 2)
   \<and> NFW_h 2 = 2 / sqrt 3 * arctan (sqrt (1 / 3))"
proof -
  from NFW_auxiliary_functions_at_the_branch_point_and_beyond
  have "\<forall>x. 1 \<le> x \<longrightarrow> NFW_f_ieee x = Finite (NFW_f x) \<and> NFW_g_ieee x = Finite (NFW_g x)
                    \<and> NFW_h_ieee x = Finite (NFW_h x)"
    by blast
  then have "NFW_f_ieee 2 = Finite (NFW_f 2) \<and> NFW_g_ieee 2 = Finite (NFW_g 2)
               \<and> NFW_h_ieee 2 = Finite (NFW_h 2)"
    by simp
  moreover have "NFW_h 2 = 2 / sqrt 3 * arctan (sqrt (1 / 3))"
    by (simp add: NFW_h_def)
  ultimately show ?thesis
    by simp
qed

text \<open>
  C2, as the claim states it, fails at \<open>x = 0\<close>: F returns minus infinity there, and G
  and H return NaN.
\<close>

theorem NFW_auxiliary_functions_not_finite_at_0:
  "NFW_f_ieee 0 = NegInf \<and> NFW_g_ieee 0 = NaN \<and> NFW_h_ieee 0 = NaN"
  by (simp add: NFW_f_ieee_def NFW_g_ieee_def NFW_h_ieee_def tv_sub_def tv_square_def
      tensor_div_def)

section \<open>The external shear\<close>

subsection \<open>Construction and parameter resolution\<close>

lemma init_cartesian:
  "lower p = ''cartesian'' \<Longrightarrow>
   ExternalShear_init cosmo z_l g1 g2 g phi p s name =
     Inr \<lparr> es_name = name, es_cosmology = cosmo,
           es_params = [(''z_l'', z_l), (''gamma_1'', g1), (''gamma_2'', g2)], es_s = s,
           es_convert_params = (\<lambda>kwargs. Inr kwargs) \<rparr>"
  by (simp add: ExternalShear_init_def add_param_def bind_err_Inr Let_def)

lemma unpack_missing_gamma:
  assumes "overridden P name 1 ''gamma_1'' = None \<or> overridden P name 2 ''gamma_2'' = None"
  shows "unpack name [(''z_l'', z_l), (''gamma_1'', None), (''gamma_2'', None)] P
           = Inl MissingParameterError"
  using assms
  by (auto simp add: unpack_def resolve_param_def bind_err_def eval_nat_numeral
      split: option.splits sum.splits)

text \<open>
  C9, as the code has it. A parametrization whose lower case is neither
  \<open>cartesian\<close> nor \<open>polar\<close> makes \<open>__init__\<close> raise, and the exception is Python's
  \<open>ValueError\<close>.
\<close>

theorem init_rejects_unknown_parametrization:
  "lower p \<noteq> ''cartesian'' \<Longrightarrow> lower p \<noteq> ''polar'' \<Longrightarrow>
   ExternalShear_init cosmo z_l g1 g2 g phi p s name = Inl ValueError"
  by (simp add: ExternalShear_init_def bind_err_Inl Let_def)

theorem init_rejects_unknown_parametrization_witness:
  "lower ''elliptical'' \<noteq> ''cartesian'' \<and> lower ''elliptical'' \<noteq> ''polar'' \<and>
   ExternalShear_init () None None None None None ''elliptical'' 0 ''shear'' = Inl ValueError"
  using init_rejects_unknown_parametrization
          [of "''elliptical''" "()" None None None None None 0 "''shear''"]
  by (simp add: lower_elliptical)

text \<open>
  C9, as the claim states it, fails: the exception raised for the parametrization
  \<open>elliptical\<close> is not \<open>ConfigurationError\<close>.
\<close>

theorem init_does_not_raise_ConfigurationError:
  "ExternalShear_init () None None None None None ''elliptical'' 0 ''shear''
     \<noteq> Inl ConfigurationError"
  by (simp add: ExternalShear_init_def bind_err_Inl Let_def lower_elliptical)

text \<open>
  C8. For an external shear constructed with the cartesian parametrization and neither
  \<open>gamma_1\<close> nor \<open>gamma_2\<close> bound, a call of \<open>convergence\<close>, \<open>potential\<close> or
  \<open>reduced_deflection_angle\<close> whose override bundle does not supply both of them
  raises \<open>MissingParameterError\<close>.
\<close>

theorem missing_gamma_raises_MissingParameterError:
  assumes "lower p = ''cartesian''"
    and "ExternalShear_init cosmo z_l None None g phi p s name = Inr self"
    and "overridden P name 1 ''gamma_1'' = None \<or> overridden P name 2 ''gamma_2'' = None"
  shows "ExternalShear_convergence self x y z_s P = Inl MissingParameterError
       \<and> ExternalShear_potential self x y z_s P = Inl MissingParameterError
       \<and> ExternalShear_reduced_deflection_angle self x y z_s P = Inl MissingParameterError"
proof -
  from assms(1,2) have self: "self = \<lparr> es_name = name, es_cosmology = cosmo,
           es_params = [(''z_l'', z_l), (''gamma_1'', None), (''gamma_2'', None)], es_s = s,
           es_convert_params = (\<lambda>kwargs. Inr kwargs) \<rparr>"
    by (simp add: init_cartesian)
  have "resolved_kwargs self P = Inl MissingParameterError"
    by (simp add: resolved_kwargs_def unpack_kwargs_def self unpack_missing_gamma [OF assms(3)]
        bind_err_Inl)
  then show ?thesis
    by (simp add: ExternalShear_convergence_def ExternalShear_potential_def
        ExternalShear_reduced_deflection_angle_def bind_err_Inl)
qed

theorem missing_gamma_raises_MissingParameterError_witness:
  "lower ''cartesian'' = ''cartesian''
   \<and> (overridden None ''shear'' 1 ''gamma_1'' = None
        \<or> overridden None ''shear'' 2 ''gamma_2'' = None)
   \<and> ExternalShear_convergence
        (projr (ExternalShear_init () (Some (1 / 2)) None None None None ''cartesian'' 0 ''shear''))
        1 1 (3 / 2) None = Inl MissingParameterError"
proof -
  note l = lower_cartesian
  have i: "ExternalShear_init () (Some (1 / 2)) None None None None ''cartesian'' 0 ''shear''
           = Inr (projr (ExternalShear_init () (Some (1 / 2)) None None None None
                           ''cartesian'' 0 ''shear''))"
    by (simp add: init_cartesian [OF l])
  have ov: "overridden None ''shear'' 1 ''gamma_1'' = None
              \<or> overridden None ''shear'' 2 ''gamma_2'' = None"
    by (simp add: overridden_def)
  from missing_gamma_raises_MissingParameterError [OF l i ov, of 1 1 "3 / 2"] l ov
  show ?thesis
    by blast
qed

subsection \<open>Potential and deflection angle\<close>

lemma potential_resolved:
  assumes "resolved_kwargs self P = Inr kw" "kw ''gamma_1'' = Some g1" "kw ''gamma_2'' = Some g2"
  shows "ExternalShear_potential self x y z_s P
           = Inr (1 / 2 * g1 * (x\<^sup>2 - y\<^sup>2) + g2 * x * y)"
  using assms by (simp add: ExternalShear_potential_def bind_err_Inr)

lemma deflection_resolved:
  assumes "resolved_kwargs self P = Inr kw" "kw ''gamma_1'' = Some g1" "kw ''gamma_2'' = Some g2"
  shows "ExternalShear_reduced_deflection_angle self x y z_s P
           = Inr (x * g1 + y * g2, x * g2 - y * g1)"
  using assms by (simp add: ExternalShear_reduced_deflection_angle_def bind_err_Inr)

lemma shear_dx:
  "((\<lambda>x. 1 / 2 * g1 * (x\<^sup>2 - y\<^sup>2) + g2 * x * y) has_real_derivative (x * g1 + y * g2)) (at x)"
  by (auto intro!: derivative_eq_intros simp: algebra_simps)

lemma shear_dy:
  "((\<lambda>y. 1 / 2 * g1 * (x\<^sup>2 - y\<^sup>2) + g2 * x * y) has_real_derivative (x * g2 - y * g1)) (at y)"
  by (auto intro!: derivative_eq_intros simp: algebra_simps)

text \<open>
  C6. With the shear components resolved to \<open>g1\<close> and \<open>g2\<close>, the potential is
  \<open>1/2 * g1 * (x\<^sup>2 - y\<^sup>2) + g2 * x * y\<close>, the deflection angle is
  \<open>(x * g1 + y * g2, x * g2 - y * g1)\<close>, and its two components are the partial
  derivatives of the potential in \<open>x\<close> and in \<open>y\<close>.
\<close>

theorem shear_deflection_is_gradient_of_potential:
  assumes "resolved_kwargs self P = Inr kw" "kw ''gamma_1'' = Some g1" "kw ''gamma_2'' = Some g2"
  shows "ExternalShear_potential self x y z_s P = Inr (1 / 2 * g1 * (x\<^sup>2 - y\<^sup>2) + g2 * x * y)
       \<and> ExternalShear_reduced_deflection_angle self x y z_s P
           = Inr (x * g1 + y * g2, x * g2 - y * g1)
       \<and> ((\<lambda>x'. projr (ExternalShear_potential self x' y z_s P)) has_real_derivative
            fst (projr (ExternalShear_reduced_deflection_angle self x y z_s P))) (at x)
       \<and> ((\<lambda>y'. projr (ExternalShear_potential self x y' z_s P)) has_real_derivative
            snd (projr (ExternalShear_reduced_deflection_angle self x y z_s P))) (at y)"
proof -
  note pot = potential_resolved [OF assms]
  note defl = deflection_resolved [OF assms]
  have dx: "((\<lambda>x'. projr (ExternalShear_potential self x' y z_s P)) has_real_derivative
            fst (projr (ExternalShear_reduced_deflection_angle self x y z_s P))) (at x)"
    unfolding pot defl sum.sel fst_conv by (rule shear_dx)
  have dy: "((\<lambda>y'. projr (ExternalShear_potential self x y' z_s P)) has_real_derivative
            snd (projr (ExternalShear_reduced_deflection_angle self x y z_s P))) (at y)"
    unfolding pot defl sum.sel snd_conv by (rule shear_dy)
  from pot defl dx dy show ?thesis
    by blast
qed

theorem shear_deflection_is_gradient_of_potential_witness:
  "resolved_kwargs
      (projr (ExternalShear_init () (Some (1 / 2)) (Some (1 / 10)) (Some 0) None None
                ''cartesian'' 0 ''shear''))
      None = Inr [''gamma_2'' \<mapsto> 0, ''gamma_1'' \<mapsto> 1 / 10, ''z_l'' \<mapsto> 1 / 2]
   \<and> ExternalShear_potential
      (projr (ExternalShear_init () (Some (1 / 2)) (Some (1 / 10)) (Some 0) None None
                ''cartesian'' 0 ''shear''))
      1 1 (3 / 2) None = Inr 0
   \<and> ExternalShear_reduced_deflection_angle
      (projr (ExternalShear_init () (Some (1 / 2)) (Some (1 / 10)) (Some 0) None None
                ''cartesian'' 0 ''shear''))
      1 1 (3 / 2) None = Inr (1 / 10, - (1 / 10))"
proof -
  have r: "resolved_kwargs
      (projr (ExternalShear_init () (Some (1 / 2)) (Some (1 / 10)) (Some 0) None None
                ''cartesian'' 0 ''shear''))
      None = Inr [''gamma_2'' \<mapsto> 0, ''gamma_1'' \<mapsto> 1 / 10, ''z_l'' \<mapsto> 1 / 2]"
    by (simp add: init_cartesian [OF lower_cartesian] resolved_kwargs_def unpack_kwargs_def
        unpack_def resolve_param_def overridden_def bind_err_Inr)
  from shear_deflection_is_gradient_of_potential [OF r, of "1 / 10" 0 1 1 "3 / 2"] r
  show ?thesis
    by simp
qed

subsection \<open>Polar and cartesian shear components\<close>


lemma sqrt_one_plus_ratio:
  assumes "x \<noteq> 0"
  shows "sqrt (1 + (y / x)\<^sup>2) = sqrt (x\<^sup>2 + y\<^sup>2) / \<bar>x\<bar>"
proof -
  have "1 + (y / x)\<^sup>2 = (x\<^sup>2 + y\<^sup>2) / x\<^sup>2"
    using assms by (simp add: power_divide field_simps)
  then show ?thesis
    by (simp add: real_sqrt_divide)
qed

lemma cos_sin_atan2:
  assumes "x \<noteq> 0 \<or> y \<noteq> 0"
  shows "cos (atan2 y x) = x / sqrt (x\<^sup>2 + y\<^sup>2) \<and> sin (atan2 y x) = y / sqrt (x\<^sup>2 + y\<^sup>2)"
proof -
  consider "0 < x" | "x < 0" "0 \<le> y" | "x < 0" "y < 0" | "x = 0" "0 < y" | "x = 0" "y < 0"
    using assms by linarith
  then show ?thesis
  proof cases
    case 1
    then show ?thesis
      by (simp add: atan2_def cos_arctan sin_arctan sqrt_one_plus_ratio)
  next
    case 2
    then show ?thesis
      by (simp add: atan2_def cos_arctan sin_arctan sqrt_one_plus_ratio)
  next
    case 3
    then show ?thesis
      by (simp add: atan2_def cos_arctan sin_arctan sqrt_one_plus_ratio cos_diff sin_diff)
  next
    case 4
    then show ?thesis by (simp add: atan2_def)
  next
    case 5
    then show ?thesis by (simp add: atan2_def)
  qed
qed

lemma scaled_circle: "(r * cos t)\<^sup>2 + (r * sin t)\<^sup>2 = r\<^sup>2" for r t :: real
proof -
  have "(r * cos t)\<^sup>2 + (r * sin t)\<^sup>2 = r\<^sup>2 * ((cos t)\<^sup>2 + (sin t)\<^sup>2)"
    by (simp only: power_mult_distrib distrib_left)
  also have "\<dots> = r\<^sup>2"
    by (simp only: sin_cos_squared_add2 mult_1_right)
  finally show ?thesis .
qed

lemma atan2_polar:
  assumes "0 < r"
  shows "\<exists>n::int. atan2 (r * sin t) (r * cos t) = t + 2 * pi * of_int n"
proof -
  note s = scaled_circle [of r t]
  have nz: "r * cos t \<noteq> 0 \<or> r * sin t \<noteq> 0"
  proof (rule ccontr)
    assume "\<not> ?thesis"
    then have "(r * cos t)\<^sup>2 + (r * sin t)\<^sup>2 = 0" by simp
    with s assms show False by simp
  qed
  from cos_sin_atan2 [OF nz] s assms
  have "cos (atan2 (r * sin t) (r * cos t)) = cos t" "sin (atan2 (r * sin t) (r * cos t)) = sin t"
    by simp_all
  then show ?thesis
    using sin_cos_eq_iff [of "atan2 (r * sin t) (r * cos t)" t] by blast
qed

text \<open>
  C7. For a magnitude \<open>gamma > 0\<close> and any angle \<open>phi\<close>, converting to cartesian
  components and back gives the magnitude \<open>gamma\<close> again, and an angle that differs from
  \<open>phi\<close> by an integer multiple of \<open>pi\<close>.
\<close>

theorem polar_cartesian_round_trip:
  assumes "0 < gamma"
  shows "fst (cartesian_to_polar (fst (polar_to_cartesian gamma phi))
                                 (snd (polar_to_cartesian gamma phi))) = gamma
       \<and> (\<exists>n::int. snd (cartesian_to_polar (fst (polar_to_cartesian gamma phi))
                                             (snd (polar_to_cartesian gamma phi)))
                     = phi + of_int n * pi)"
proof -
  note s = scaled_circle [of gamma "2 * phi"]
  from atan2_polar [OF assms, of "2 * phi"] obtain n :: int
    where n: "atan2 (gamma * sin (2 * phi)) (gamma * cos (2 * phi)) = 2 * phi + 2 * pi * of_int n"
    by blast
  have "fst (cartesian_to_polar (fst (polar_to_cartesian gamma phi))
                                (snd (polar_to_cartesian gamma phi))) = gamma"
    using assms by (simp add: cartesian_to_polar_def polar_to_cartesian_def Let_def s)
  moreover have "snd (cartesian_to_polar (fst (polar_to_cartesian gamma phi))
                                         (snd (polar_to_cartesian gamma phi)))
                   = phi + of_int n * pi"
    by (simp add: cartesian_to_polar_def polar_to_cartesian_def Let_def n)
  ultimately show ?thesis by blast
qed

theorem polar_cartesian_round_trip_witness:
  "(0::real) < 1
   \<and> fst (cartesian_to_polar (fst (polar_to_cartesian 1 0)) (snd (polar_to_cartesian 1 0))) = 1
   \<and> snd (cartesian_to_polar (fst (polar_to_cartesian 1 0)) (snd (polar_to_cartesian 1 0))) = 0"
proof -
  have v: "snd (cartesian_to_polar (fst (polar_to_cartesian 1 0)) (snd (polar_to_cartesian 1 0))) = 0"
    by (simp add: cartesian_to_polar_def polar_to_cartesian_def atan2_def)
  from polar_cartesian_round_trip [of 1 0] v show ?thesis
    by simp
qed

text \<open>
  On elements that are not the negative zero, the values \<open>_cartesian_to_polar\<close>
  returns are those of its reading on the real numbers.
\<close>

lemma atan2_signed_Elem: "elem_value (atan2_signed (Elem y) (Elem x)) = atan2 y x"
  by (simp add: atan2_signed_def atan2_def)

lemma cartesian_to_polar_signed_Elem:
  "elem_value (fst (cartesian_to_polar_signed (Elem a) (Elem b))) = fst (cartesian_to_polar a b)
   \<and> elem_value (snd (cartesian_to_polar_signed (Elem a) (Elem b))) = snd (cartesian_to_polar a b)"
proof -
  have "elem_value (case atan2_signed (Elem b) (Elem a) of NegZero \<Rightarrow> NegZero | Elem a \<Rightarrow> Elem (0.5 * a))
          = 0.5 * elem_value (atan2_signed (Elem b) (Elem a))"
    by (cases "atan2_signed (Elem b) (Elem a)") simp_all
  then show ?thesis
    by (simp add: cartesian_to_polar_signed_def cartesian_to_polar_def Let_def atan2_signed_Elem)
qed





end
